theory Spec2Isabelle
  imports
    Complex_Main
    "HOL-Library.Word"
    "HOL-Library.Char_ord"
    "HOL-Library.List_Lexorder"
    "HOL-Library.Option_ord"
    "HOL-Library.Product_Lexorder"
    "HOL-Library.Multiset"
begin

section \<open>The relational store of app.py\<close>

text \<open>
  \<^verbatim>\<open>init_db\<close> loads four CSV files into an in-memory SQLite database with
  \<^verbatim>\<open>DataFrame.to_sql(..., if_exists='replace', index=False)\<close>. Tables made that way
  carry no PRIMARY KEY, UNIQUE or FOREIGN KEY constraint, so a table is a list of rows in
  insertion order, duplicates allowed. The selectors carry the table aliases the queries of
  app.py use (\<^verbatim>\<open>p\<close>, \<^verbatim>\<open>r\<close>, \<^verbatim>\<open>fl\<close>, \<^verbatim>\<open>c\<close>): \<open>p_City\<close> is \<^verbatim>\<open>p.City\<close>.
  Stored columns are taken to be non-null; NULL only arises where SQL itself makes it
  (the missing side of an outer join, an aggregate over no rows) and is \<open>None\<close> there.

  SQLite has no date type. \<^verbatim>\<open>Expiry_Date\<close> and \<^verbatim>\<open>Timestamp\<close> hold text, and the
  comparisons and orderings of the queries are byte-wise text comparisons, which is the
  lexicographic order on \<open>string\<close> used below.

  An SQLite INTEGER and a \<^verbatim>\<open>numpy.int64\<close> are 64-bit two's complement integers:
  \<open>int64\<close>, read as a signed number by \<open>sint\<close>; addition wraps. The Python integers
  the forms pass are within that range (the widgets hold no larger value, and the ids they
  offer come from the tables), so they are \<open>int64\<close> as well.
\<close>

type_synonym int64 = "64 word"

text \<open>
  What a column that references another table holds. Rows from the CSV hold the integer.
  The forms take the id out of a row of a data frame (lines 352 and 503), where it is a
  \<^verbatim>\<open>numpy.int64\<close>; \<^verbatim>\<open>sqlite3\<close> knows no such type and binds the object through
  its buffer, so the column receives the eight bytes of the number as a BLOB, least
  significant byte first.
\<close>

datatype sql_value = Integer int64 | Blob "8 word list"

definition int64_bytes :: "int64 \<Rightarrow> 8 word list" where
  "int64_bytes w = map (\<lambda>i. ucast (drop_bit (8 * i) w)) [0..<8]"

text \<open>
  The column types \<^verbatim>\<open>to_sql\<close> gives a table. They are inferred from the data, which
  makes the id and quantity columns INTEGER. A CSV with a header and no data row has
  nothing to infer from: every such column is TEXT, and an integer inserted later is
  stored as its decimal text. The rows below record the integer in either case; compared
  with a parameter or a literal of a statement, and added up by \<^verbatim>\<open>SUM\<close>, the text
  behaves as the integer it spells. What differs is what Python reads back: an integer
  from an INTEGER column, a \<^verbatim>\<open>str\<close> from a TEXT column.
\<close>

datatype column_types = Inferred | All_TEXT

record provider =
  p_Provider_ID :: int64
  p_Name :: string
  p_Type :: string
  p_City :: string
  p_Contact :: string

record receiver =
  r_Receiver_ID :: int64
  r_Name :: string
  r_Type :: string
  r_City :: string

record food_listing =
  fl_Food_ID :: int64
  fl_Food_Name :: string
  fl_Quantity :: int64
  fl_Expiry_Date :: string
  fl_Provider_ID :: sql_value
  fl_Provider_Type :: string
  fl_Location :: string
  fl_Food_Type :: string
  fl_Meal_Type :: string

record claim =
  c_Claim_ID :: int64
  c_Food_ID :: int64
  c_Receiver_ID :: sql_value
  c_Status :: string
  c_Timestamp :: string

record store =
  providers :: "provider list"
  receivers :: "receiver list"
  food_listings :: "food_listing list"
  claims :: "claim list"
  food_listings_types :: column_types
  claims_types :: column_types

text \<open>
  The error kinds of the boundary, and the two exceptions the code can raise on its way:
  Python's \<^verbatim>\<open>TypeError\<close> and the \<^verbatim>\<open>DatabaseError\<close> in which pandas wraps a failed
  query. \<open>Inl\<close> of a result carries one of them.
\<close>

datatype error =
  NotFound | InvalidReference | ValidationFailure | IntegrityError | TypeError | DatabaseError

section \<open>Dates as text\<close>

text \<open>
  A \<^verbatim>\<open>datetime.date\<close> is (year, month, day); a \<^verbatim>\<open>datetime.datetime\<close> adds
  (hour, minute, second). Years are the four-digit ones, 1000 to 9999.
\<close>

type_synonym date = "nat \<times> nat \<times> nat"
type_synonym datetime = "date \<times> nat \<times> nat \<times> nat"

definition digit_char :: "nat \<Rightarrow> char" where
  "digit_char n = char_of (48 + n mod 10)"

text \<open>\<open>dec w n\<close>: the last \<open>w\<close> decimal digits of \<open>n\<close>, zero padded.\<close>

fun dec :: "nat \<Rightarrow> nat \<Rightarrow> string" where
  "dec 0 n = []"
| "dec (Suc w) n = dec w (n div 10) @ [digit_char n]"

text \<open>\<^verbatim>\<open>d.strftime('%Y-%m-%d')\<close>\<close>

fun strftime_Ymd :: "date \<Rightarrow> string" where
  "strftime_Ymd (y, m, d) = dec 4 y @ ''-'' @ dec 2 m @ ''-'' @ dec 2 d"

text \<open>\<^verbatim>\<open>t.strftime('%Y-%m-%d %H:%M:%S')\<close>\<close>

fun strftime_YmdHMS :: "datetime \<Rightarrow> string" where
  "strftime_YmdHMS (d, h, mi, s) =
     strftime_Ymd d @ '' '' @ dec 2 h @ '':'' @ dec 2 mi @ '':'' @ dec 2 s"

text \<open>
  What \<^verbatim>\<open>to_sql\<close> stores for a value of a \<^verbatim>\<open>pd.to_datetime\<close> column (lines 20, 21
  and 26, 27): pandas hands SQLite the value as \<^verbatim>\<open>isoformat(' ')\<close>, date and time of day,
  so a date read from the CSV is stored with the suffix \<^verbatim>\<open> 00:00:00\<close>.
\<close>

definition to_sql_datetime :: "datetime \<Rightarrow> string" where
  "to_sql_datetime t = strftime_YmdHMS t"

definition is_leap :: "nat \<Rightarrow> bool" where
  "is_leap y = (y mod 4 = 0 \<and> (y mod 100 \<noteq> 0 \<or> y mod 400 = 0))"

definition days_in_month :: "nat \<Rightarrow> nat \<Rightarrow> nat" where
  "days_in_month y m =
     (if m = 2 then (if is_leap y then 29 else 28)
      else if m = 4 \<or> m = 6 \<or> m = 9 \<or> m = 11 then 30 else 31)"

fun next_day :: "date \<Rightarrow> date" where
  "next_day (y, m, d) =
     (if d < days_in_month y m then (y, m, d + 1)
      else if m < 12 then (y, m + 1, 1)
      else (y + 1, 1, 1))"

definition digit_val :: "char \<Rightarrow> nat option" where
  "digit_val ch =
     (if CHR ''0'' \<le> ch \<and> ch \<le> CHR ''9'' then Some (of_char ch - 48) else None)"

fun parse_nat :: "nat \<Rightarrow> string \<Rightarrow> nat option" where
  "parse_nat acc [] = Some acc"
| "parse_nat acc (ch # cs) =
     (case digit_val ch of None \<Rightarrow> None | Some v \<Rightarrow> parse_nat (10 * acc + v) cs)"

text \<open>
  SQLite reading a \<^verbatim>\<open>YYYY-MM-DD\<close> time string: four digits, two digits from 1 to 12,
  two digits from 1 to 31; anything else is not a date and the date function gives NULL.
  Only this format reaches the function: the argument is \<^verbatim>\<open>today_str\<close>.
\<close>

definition date_of_text :: "string \<Rightarrow> date option" where
  "date_of_text s =
     (if length s = 10 \<and> s ! 4 = CHR ''-'' \<and> s ! 7 = CHR ''-'' then
        (case (parse_nat 0 (take 4 s), parse_nat 0 (take 2 (drop 5 s)), parse_nat 0 (drop 8 s)) of
           (Some y, Some m, Some d) \<Rightarrow>
             (if 1 \<le> m \<and> m \<le> 12 \<and> 1 \<le> d \<and> d \<le> 31 then Some (y, m, d) else None)
         | _ \<Rightarrow> None)
      else None)"

text \<open>
  \<^verbatim>\<open>DATE(s, '+n days')\<close>: the calendar date \<open>n\<close> days after the date \<open>s\<close> names,
  as \<^verbatim>\<open>YYYY-MM-DD\<close> text, NULL when \<open>s\<close> is not a date. The argument is always a
  real calendar date (it comes from \<^verbatim>\<open>datetime.now()\<close>), for which adding a day is
  \<open>next_day\<close>.
\<close>

definition sqlite_DATE :: "string \<Rightarrow> nat \<Rightarrow> string option" where
  "sqlite_DATE s n = map_option (\<lambda>d. strftime_Ymd ((next_day ^^ n) d)) (date_of_text s)"

section \<open>CRUD operations\<close>

text \<open>
  \<^verbatim>\<open>execute_dml\<close> runs one statement and commits. No table has a constraint and the
  statements are fixed, so each returns normally: the result is always \<open>Inr\<close> of the
  new store. \<open>provider_id\<close> and \<open>receiver_id\<close> are the values as \<^verbatim>\<open>sqlite3\<close> binds
  them.
\<close>

definition add_food_listing_sql ::
  "int64 \<Rightarrow> string \<Rightarrow> int64 \<Rightarrow> date \<Rightarrow> sql_value \<Rightarrow> string \<Rightarrow> string \<Rightarrow> string \<Rightarrow> string
     \<Rightarrow> store \<Rightarrow> error + store" where
  "add_food_listing_sql food_id food_name quantity expiry_date provider_id provider_type
       location food_type meal_type st =
     Inr (st\<lparr>food_listings := food_listings st @
       [\<lparr>fl_Food_ID = food_id, fl_Food_Name = food_name, fl_Quantity = quantity,
         fl_Expiry_Date = strftime_Ymd expiry_date, fl_Provider_ID = provider_id,
         fl_Provider_Type = provider_type, fl_Location = location,
         fl_Food_Type = food_type, fl_Meal_Type = meal_type\<rparr>]\<rparr>)"

definition update_food_listing_sql ::
  "int64 \<Rightarrow> string \<Rightarrow> int64 \<Rightarrow> date \<Rightarrow> string \<Rightarrow> string \<Rightarrow> store \<Rightarrow> error + store" where
  "update_food_listing_sql food_id food_name quantity expiry_date food_type meal_type st =
     Inr (st\<lparr>food_listings :=
       map (\<lambda>fl. if fl_Food_ID fl = food_id
                  then fl\<lparr>fl_Food_Name := food_name, fl_Quantity := quantity,
                          fl_Expiry_Date := strftime_Ymd expiry_date,
                          fl_Food_Type := food_type, fl_Meal_Type := meal_type\<rparr>
                  else fl)
           (food_listings st)\<rparr>)"

text \<open>
  \<^verbatim>\<open>delete_food_listing_sql\<close> runs two statements, the claims first:
  \<^verbatim>\<open>DELETE FROM claims WHERE Food_ID = ?\<close>, then
  \<^verbatim>\<open>DELETE FROM food_listings WHERE Food_ID = ?\<close>.
\<close>

definition delete_claims_of :: "int64 \<Rightarrow> store \<Rightarrow> error + store" where
  "delete_claims_of food_id st =
     Inr (st\<lparr>claims := filter (\<lambda>c. c_Food_ID c \<noteq> food_id) (claims st)\<rparr>)"

definition delete_listing_row :: "int64 \<Rightarrow> store \<Rightarrow> error + store" where
  "delete_listing_row food_id st =
     Inr (st\<lparr>food_listings := filter (\<lambda>fl. fl_Food_ID fl \<noteq> food_id) (food_listings st)\<rparr>)"

definition delete_food_listing_sql :: "int64 \<Rightarrow> store \<Rightarrow> error + store" where
  "delete_food_listing_sql food_id st =
     (case delete_claims_of food_id st of
        Inl e \<Rightarrow> Inl e
      | Inr st1 \<Rightarrow> delete_listing_row food_id st1)"

definition add_claim_sql ::
  "int64 \<Rightarrow> int64 \<Rightarrow> sql_value \<Rightarrow> string \<Rightarrow> datetime \<Rightarrow> store \<Rightarrow> error + store" where
  "add_claim_sql claim_id food_id receiver_id status timestamp st =
     Inr (st\<lparr>claims := claims st @
       [\<lparr>c_Claim_ID = claim_id, c_Food_ID = food_id, c_Receiver_ID = receiver_id,
         c_Status = status, c_Timestamp = strftime_YmdHMS timestamp\<rparr>]\<rparr>)"

section \<open>SQL building blocks\<close>

text \<open>\<^verbatim>\<open>COALESCE(a, b)\<close>: the first argument that is not NULL.\<close>

definition coalesce :: "'a option \<Rightarrow> 'a option \<Rightarrow> 'a option" where
  "coalesce a b = (case a of Some x \<Rightarrow> Some x | None \<Rightarrow> b)"

text \<open>\<^verbatim>\<open>COUNT(DISTINCT e)\<close> over a group: the number of distinct non-NULL values.\<close>

definition count_distinct :: "'a option list \<Rightarrow> nat" where
  "count_distinct vs = length (remdups (List.map_filter (\<lambda>v. v) vs))"

definition int64_range :: "int \<Rightarrow> bool" where
  "int64_range i \<longleftrightarrow> - (2 ^ 63) \<le> i \<and> i < 2 ^ 63"

text \<open>
  \<^verbatim>\<open>SUM(e)\<close> adds the values row by row in signed 64-bit arithmetic. Once a partial
  sum leaves the range the query fails with \<^verbatim>\<open>integer overflow\<close>, whatever the later
  rows are (\<open>None\<close> of \<open>sum_step\<close>). Over no rows the sum is NULL.
\<close>

fun sum_step :: "int64 \<Rightarrow> int64 list \<Rightarrow> int64 option" where
  "sum_step acc [] = Some acc"
| "sum_step acc (v # vs) =
     (if int64_range (sint acc + sint v) then sum_step (acc + v) vs else None)"

definition sql_SUM :: "int64 list \<Rightarrow> error + int64 option" where
  "sql_SUM vs =
     (if vs = [] then Inr None
      else case sum_step 0 vs of None \<Rightarrow> Inl DatabaseError | Some s \<Rightarrow> Inr (Some s))"

text \<open>\<^verbatim>\<open>MAX(e)\<close> over integers, as signed numbers; NULL when there is no row.\<close>

definition smax :: "int64 \<Rightarrow> int64 \<Rightarrow> int64" where
  "smax a b = (if sint a \<le> sint b then b else a)"

fun sql_MAX :: "int64 list \<Rightarrow> int64 option" where
  "sql_MAX [] = None"
| "sql_MAX (v # vs) = Some (fold smax vs v)"

section \<open>Query catalog\<close>

text \<open>
  \<^verbatim>\<open>FROM providers p LEFT JOIN receivers r ON p.City = r.City\<close>: every provider row,
  once for each receiver of the same city, or once with a NULL receiver when there is none.
\<close>

definition providers_left_join_receivers :: "store \<Rightarrow> (provider \<times> receiver option) list" where
  "providers_left_join_receivers st =
     concat (map (\<lambda>p.
        (case filter (\<lambda>r. p_City p = r_City r) (receivers st) of
           [] \<Rightarrow> [(p, None)]
         | r0 # rs \<Rightarrow> map (\<lambda>r. (p, Some r)) (r0 # rs)))
      (providers st))"

text \<open>\<^verbatim>\<open>COALESCE(p.City, r.City)\<close> on a joined row.\<close>

definition joined_city :: "provider \<times> receiver option \<Rightarrow> string option" where
  "joined_city jr = coalesce (Some (p_City (fst jr))) (map_option r_City (snd jr))"

text \<open>
  Lines 54 to 65. One row (City, NumProviders, NumReceivers) for each group of the join,
  then \<^verbatim>\<open>ORDER BY NumProviders DESC, NumReceivers DESC\<close>. SQL leaves the order of rows
  that tie on the sort key open. SQLite forms the groups in ascending order of the grouping
  key and keeps tied rows in the order they reach the sorter, which is what is written here.
\<close>

definition get_providers_receivers_per_city_sql :: "store \<Rightarrow> (string option \<times> nat \<times> nat) list" where
  "get_providers_receivers_per_city_sql st =
     (let joined = providers_left_join_receivers st;
          cities = sort (remdups (map joined_city joined));
          row = (\<lambda>k. let g = filter (\<lambda>jr. joined_city jr = k) joined in
                   (k, count_distinct (map (\<lambda>jr. Some (p_Provider_ID (fst jr))) g),
                       count_distinct (map (\<lambda>jr. map_option r_Receiver_ID (snd jr)) g)))
      in sort_key (\<lambda>(k, np, nr). (- int np, - int nr)) (map row cities))"

text \<open>
  Lines 103 to 107: \<^verbatim>\<open>SELECT SUM(Quantity) FROM food_listings\<close>, first row. A failed
  query raises.
\<close>

definition get_total_food_available_sql :: "store \<Rightarrow> error + int64 option" where
  "get_total_food_available_sql st = sql_SUM (map fl_Quantity (food_listings st))"

text \<open>
  Lines 159 to 168. The percentage is computed in REAL arithmetic, that is on IEEE doubles:
  each operation gives the exact result rounded to a double, and an integer operand is
  converted to a double first. \<open>rnd\<close> is that rounding. For a status held by \<open>k\<close> of
  the \<open>n\<close> claims the expression is
  \<^verbatim>\<open>CAST(k AS REAL) * 100 / n\<close>.
\<close>

definition percentage :: "(real \<Rightarrow> real) \<Rightarrow> nat \<Rightarrow> nat \<Rightarrow> real" where
  "percentage rnd k n = rnd (rnd (rnd (real k) * 100) / rnd (real n))"

text \<open>
  One row for each status, \<^verbatim>\<open>ORDER BY Percentage DESC\<close>; the groups reach the sorter
  in ascending order of the status, and rows that tie keep that order.
\<close>

definition get_claim_status_percentage_sql :: "(real \<Rightarrow> real) \<Rightarrow> store \<Rightarrow> (string \<times> real) list" where
  "get_claim_status_percentage_sql rnd st =
     (let statuses = sort (remdups (map c_Status (claims st)));
          row = (\<lambda>s. (s, percentage rnd (length (filter (\<lambda>c. c_Status c = s) (claims st)))
                         (length (claims st))))
      in sort_key (\<lambda>(s, p). - p) (map row statuses))"

text \<open>
  Lines 209 to 222. \<open>now\<close> is \<^verbatim>\<open>datetime.now()\<close>. The WHERE clause compares the
  stored text with \<^verbatim>\<open>today_str\<close> and with \<^verbatim>\<open>DATE(today_str, '+days days')\<close>; a
  comparison with NULL is not true. Rows that tie on \<^verbatim>\<open>Expiry_Date\<close> keep table order.
\<close>

definition today_str :: "datetime \<Rightarrow> string" where
  "today_str now = strftime_Ymd (fst now)"

definition nearing_expiry_where :: "datetime \<Rightarrow> nat \<Rightarrow> food_listing \<Rightarrow> bool" where
  "nearing_expiry_where now days fl =
     (fl_Expiry_Date fl > today_str now \<and>
      (case sqlite_DATE (today_str now) days of
         None \<Rightarrow> False
       | Some upper \<Rightarrow> fl_Expiry_Date fl \<le> upper))"

definition get_food_nearing_expiry_sql ::
  "datetime \<Rightarrow> nat \<Rightarrow> store \<Rightarrow> (string \<times> int64 \<times> string \<times> string \<times> sql_value) list" where
  "get_food_nearing_expiry_sql now days st =
     map (\<lambda>fl. (fl_Food_Name fl, fl_Quantity fl, fl_Expiry_Date fl, fl_Location fl,
                fl_Provider_ID fl))
       (sort_key fl_Expiry_Date (filter (nearing_expiry_where now days) (food_listings st)))"

section \<open>Food listings page\<close>

text \<open>
  Lines 335 and 340: \<^verbatim>\<open>int(max_food_id + 1)\<close>, the least Food ID the Add form takes.
  \<^verbatim>\<open>max_food_id\<close> is 0 for an empty table. Otherwise it is the largest value of the
  column as pandas reads it: a \<^verbatim>\<open>numpy.int64\<close> from an INTEGER column, whose sum with
  1 wraps around, and a \<^verbatim>\<open>str\<close> from a TEXT column, whose sum with 1 raises
  \<^verbatim>\<open>TypeError\<close>. The page runs these lines before any of its forms.
\<close>

definition min_food_id :: "store \<Rightarrow> error + int64" where
  "min_food_id st =
     (case sql_MAX (map fl_Food_ID (food_listings st)) of
        None \<Rightarrow> Inr (0 + 1)
      | Some max_food_id \<Rightarrow>
          (case food_listings_types st of
             Inferred \<Rightarrow> Inr (max_food_id + 1)
           | All_TEXT \<Rightarrow> Inl TypeError))"

text \<open>
  Lines 360 to 366, the submit handler of \<^verbatim>\<open>add_listing_form\<close>. The provider id, type
  and city come from the selected provider row (lines 351 to 354); the id is a
  \<^verbatim>\<open>numpy.int64\<close> there and is bound as its bytes.
\<close>

definition add_listing_form ::
  "int64 \<Rightarrow> string \<Rightarrow> int64 \<Rightarrow> date \<Rightarrow> provider \<Rightarrow> string \<Rightarrow> string \<Rightarrow> store \<Rightarrow> error + store" where
  "add_listing_form new_food_id new_food_name new_quantity new_expiry_date
       selected_provider_row new_food_type new_meal_type st =
     (if new_food_name = [] \<or> sint new_quantity \<le> 0 then Inl ValidationFailure
      else add_food_listing_sql new_food_id new_food_name new_quantity new_expiry_date
             (Blob (int64_bytes (p_Provider_ID selected_provider_row)))
             (p_Type selected_provider_row) (p_City selected_provider_row)
             new_food_type new_meal_type st)"

section \<open>Claim food page\<close>

text \<open>
  Lines 444 to 478. Each selection other than \<^verbatim>\<open>'All'\<close> appends one
  \<^verbatim>\<open>AND column = ?\<close> to \<^verbatim>\<open>WHERE 1=1\<close>.
\<close>

definition filter_conditions ::
  "string \<Rightarrow> string \<Rightarrow> string \<Rightarrow> string \<Rightarrow> (food_listing \<Rightarrow> bool) list" where
  "filter_conditions selected_city selected_provider_type selected_food_type selected_meal_type =
     (if selected_city \<noteq> ''All'' then [\<lambda>fl. fl_Location fl = selected_city] else []) @
     (if selected_provider_type \<noteq> ''All''
        then [\<lambda>fl. fl_Provider_Type fl = selected_provider_type] else []) @
     (if selected_food_type \<noteq> ''All'' then [\<lambda>fl. fl_Food_Type fl = selected_food_type] else []) @
     (if selected_meal_type \<noteq> ''All'' then [\<lambda>fl. fl_Meal_Type fl = selected_meal_type] else [])"

text \<open>
  \<^verbatim>\<open>FROM food_listings fl JOIN providers p ON fl.Provider_ID = p.Provider_ID\<close>. A BLOB
  equals no integer, so a listing whose provider id is a BLOB joins with no provider.
  SQLite scans the listings and looks the providers of each up in a transient index on
  the columns the query uses, so providers that share an id come in the order of
  \<^verbatim>\<open>Name\<close> and \<^verbatim>\<open>Contact\<close>.
\<close>

definition listings_join_providers :: "store \<Rightarrow> (food_listing \<times> provider) list" where
  "listings_join_providers st =
     concat (map (\<lambda>fl.
        map (\<lambda>p. (fl, p))
          (sort_key (\<lambda>p. (p_Name p, p_Contact p))
             (filter (\<lambda>p. fl_Provider_ID fl = Integer (p_Provider_ID p)) (providers st))))
      (food_listings st))"

record listing_view =
  v_Food_ID :: int64
  v_Food_Name :: string
  v_Quantity :: int64
  v_Expiry_Date :: string
  v_Provider_Type :: string
  v_Location :: string
  v_Food_Type :: string
  v_Meal_Type :: string
  v_Provider_Name :: string
  v_Provider_Contact :: string

definition select_view :: "food_listing \<times> provider \<Rightarrow> listing_view" where
  "select_view jr =
     \<lparr>v_Food_ID = fl_Food_ID (fst jr), v_Food_Name = fl_Food_Name (fst jr),
      v_Quantity = fl_Quantity (fst jr), v_Expiry_Date = fl_Expiry_Date (fst jr),
      v_Provider_Type = fl_Provider_Type (fst jr), v_Location = fl_Location (fst jr),
      v_Food_Type = fl_Food_Type (fst jr), v_Meal_Type = fl_Meal_Type (fst jr),
      v_Provider_Name = p_Name (snd jr), v_Provider_Contact = p_Contact (snd jr)\<rparr>"

text \<open>
  \<^verbatim>\<open>ORDER BY fl.Expiry_Date ASC, fl.Food_Name ASC\<close>, both compared as text; rows that
  tie keep the order of the join.
\<close>

definition filter_query :: "string \<Rightarrow> string \<Rightarrow> string \<Rightarrow> string \<Rightarrow> store \<Rightarrow> listing_view list" where
  "filter_query selected_city selected_provider_type selected_food_type selected_meal_type st =
     map select_view
       (sort_key (\<lambda>jr. (fl_Expiry_Date (fst jr), fl_Food_Name (fst jr)))
          (filter (\<lambda>jr. list_all (\<lambda>cond. cond (fst jr))
                     (filter_conditions selected_city selected_provider_type
                        selected_food_type selected_meal_type))
             (listings_join_providers st)))"

text \<open>
  Lines 490 and 491: \<^verbatim>\<open>SELECT MAX(Claim_ID) FROM claims\<close>; when the maximum is NULL
  the new id is 1, otherwise \<^verbatim>\<open>int(max_claim_id + 1)\<close>. From an INTEGER column the
  maximum is a \<^verbatim>\<open>numpy.int64\<close> and the sum wraps around; from a TEXT column it is a
  \<^verbatim>\<open>str\<close> and the sum raises \<^verbatim>\<open>TypeError\<close>. The page runs these lines before the
  claim form.
\<close>

definition new_claim_id :: "store \<Rightarrow> error + int64" where
  "new_claim_id st =
     (case sql_MAX (map c_Claim_ID (claims st)) of
        None \<Rightarrow> Inr 1
      | Some max_claim_id \<Rightarrow>
          (case claims_types st of
             Inferred \<Rightarrow> Inr (max_claim_id + 1)
           | All_TEXT \<Rightarrow> Inl TypeError))"

text \<open>
  Lines 509 to 518, the submit handler of \<^verbatim>\<open>claim_form\<close>. \<open>claim_id\<close> is the
  value of \<^verbatim>\<open>new_claim_id\<close> that line 491 computed and \<open>now\<close> is
  \<^verbatim>\<open>datetime.now()\<close>. The receiver id comes from the selected receiver row
  (line 503); it is a \<^verbatim>\<open>numpy.int64\<close> and is bound as its bytes.
  \<^verbatim>\<open>st.error\<close> leaves the store as it is.
\<close>

definition claim_form ::
  "int64 \<Rightarrow> int64 \<Rightarrow> receiver \<Rightarrow> string \<Rightarrow> datetime \<Rightarrow> store \<Rightarrow> error + store" where
  "claim_form claim_id claim_food_id selected_receiver_row claim_status now st =
     (let food_exists = length (filter (\<lambda>fl. fl_Food_ID fl = claim_food_id) (food_listings st))
      in if food_exists = 0 then Inl InvalidReference
         else add_claim_sql claim_id claim_food_id
                (Blob (int64_bytes (r_Receiver_ID selected_receiver_row)))
                claim_status now st)"

section \<open>A session of form submissions\<close>

text \<open>
  The submit handlers above and the two buttons of \<^verbatim>\<open>update_delete_listing_form\<close>
  (lines 406 to 414), as the actions a user can take. Streamlit runs the script of the
  page from its top on every submission, so a handler of the listings page is reached
  after lines 335 and 340, and the handler of the claim form after lines 490 and 491 with
  the id computed there. A result \<open>Inl\<close> means that an exception ended the run or that
  the handler showed an error; no statement was executed and the store stays as it was.
\<close>

datatype action =
    Add_Listing int64 string int64 date provider string string
  | Update_Listing int64 string int64 date string string
  | Delete_Listing int64
  | Submit_Claim int64 receiver string datetime

fun handle :: "action \<Rightarrow> store \<Rightarrow> error + store" where
  "handle (Add_Listing new_food_id new_food_name new_quantity new_expiry_date
             selected_provider_row new_food_type new_meal_type) st =
     (case min_food_id st of
        Inl e \<Rightarrow> Inl e
      | Inr _ \<Rightarrow> add_listing_form new_food_id new_food_name new_quantity new_expiry_date
                  selected_provider_row new_food_type new_meal_type st)"
| "handle (Update_Listing selected_listing_id updated_food_name updated_quantity
             updated_expiry_date updated_food_type updated_meal_type) st =
     (case min_food_id st of
        Inl e \<Rightarrow> Inl e
      | Inr _ \<Rightarrow> update_food_listing_sql selected_listing_id updated_food_name
                  updated_quantity updated_expiry_date updated_food_type updated_meal_type st)"
| "handle (Delete_Listing selected_listing_id) st =
     (case min_food_id st of
        Inl e \<Rightarrow> Inl e
      | Inr _ \<Rightarrow> delete_food_listing_sql selected_listing_id st)"
| "handle (Submit_Claim claim_food_id selected_receiver_row claim_status now) st =
     (case new_claim_id st of
        Inl e \<Rightarrow> Inl e
      | Inr claim_id \<Rightarrow> claim_form claim_id claim_food_id selected_receiver_row claim_status now st)"

definition after :: "store \<Rightarrow> action \<Rightarrow> store" where
  "after st a = (case handle a st of Inl e \<Rightarrow> st | Inr st' \<Rightarrow> st')"

text \<open>
  Line 340: the Food ID widget is \<^verbatim>\<open>number_input(min_value=int(max_food_id + 1))\<close>,
  so the form never submits a smaller id, and there is no form when that value could not
  be computed. The limits of the other widgets, and whatever else can keep a form from
  being shown, only take actions away; they play no part in what follows and are left
  open.
\<close>

fun widget_allows :: "store \<Rightarrow> action \<Rightarrow> bool" where
  "widget_allows st (Add_Listing new_food_id _ _ _ _ _ _) =
     (case min_food_id st of Inl e \<Rightarrow> False | Inr least \<Rightarrow> sint least \<le> sint new_food_id)"
| "widget_allows st _ = True"

text \<open>The store after a sequence of actions; \<open>None\<close> when a widget could not hold a value.\<close>

fun session :: "store \<Rightarrow> action list \<Rightarrow> store option" where
  "session st [] = Some st"
| "session st (a # acts) = (if widget_allows st a then session (after st a) acts else None)"

text \<open>
  The largest id must be below \<open>2 ^ 63 - 1\<close> for the next one to be computed without
  wrapping around: for the listings when a listing is added, for the claims when a claim
  is submitted.
\<close>

fun below_top :: "store \<Rightarrow> action \<Rightarrow> bool" where
  "below_top st (Add_Listing _ _ _ _ _ _ _) =
     list_all (\<lambda>fl. sint (fl_Food_ID fl) < 2 ^ 63 - 1) (food_listings st)"
| "below_top st (Submit_Claim _ _ _ _) =
     list_all (\<lambda>c. sint (c_Claim_ID c) < 2 ^ 63 - 1) (claims st)"
| "below_top st _ = True"

fun no_wraparound :: "store \<Rightarrow> action list \<Rightarrow> bool" where
  "no_wraparound st [] = True"
| "no_wraparound st (a # acts) = (below_top st a \<and> no_wraparound (after st a) acts)"

definition unique_ids :: "store \<Rightarrow> bool" where
  "unique_ids st =
     (distinct (map fl_Food_ID (food_listings st)) \<and> distinct (map c_Claim_ID (claims st)))"

text \<open>Every claim names a listing that exists.\<close>

definition no_orphan_claims :: "store \<Rightarrow> bool" where
  "no_orphan_claims st =
     list_all (\<lambda>c. list_ex (\<lambda>fl. fl_Food_ID fl = c_Food_ID c) (food_listings st)) (claims st)"

section \<open>Sample rows\<close>

definition sample_provider :: "int64 \<Rightarrow> string \<Rightarrow> provider" where
  "sample_provider i city =
     \<lparr>p_Provider_ID = i, p_Name = ''Green Grocer'', p_Type = ''Supermarket'', p_City = city,
      p_Contact = ''555-0100''\<rparr>"

definition sample_receiver :: "int64 \<Rightarrow> string \<Rightarrow> receiver" where
  "sample_receiver i city =
     \<lparr>r_Receiver_ID = i, r_Name = ''Food Bank'', r_Type = ''NGO'', r_City = city\<rparr>"

definition sample_listing :: "int64 \<Rightarrow> string \<Rightarrow> string \<Rightarrow> food_listing" where
  "sample_listing i name expiry =
     \<lparr>fl_Food_ID = i, fl_Food_Name = name, fl_Quantity = 5, fl_Expiry_Date = expiry,
      fl_Provider_ID = Integer 1, fl_Provider_Type = ''Supermarket'', fl_Location = ''CityA'',
      fl_Food_Type = ''Vegan'', fl_Meal_Type = ''Lunch''\<rparr>"

definition sample_claim :: "int64 \<Rightarrow> int64 \<Rightarrow> claim" where
  "sample_claim i food_id =
     \<lparr>c_Claim_ID = i, c_Food_ID = food_id, c_Receiver_ID = Integer 1, c_Status = ''Pending'',
      c_Timestamp = ''2025-03-10 09:00:00''\<rparr>"

definition empty_store :: store where
  "empty_store =
     \<lparr>providers = [], receivers = [], food_listings = [], claims = [],
      food_listings_types = Inferred, claims_types = Inferred\<rparr>"

definition sample_store :: store where
  "sample_store =
     \<lparr>providers = [sample_provider 1 ''CityA''], receivers = [sample_receiver 1 ''CityA''],
      food_listings = [sample_listing 1 ''Rice'' ''2025-03-20'',
                       sample_listing 2 ''Bread'' ''2025-03-21''],
      claims = [sample_claim 1 1, sample_claim 2 2, sample_claim 3 1],
      food_listings_types = Inferred, claims_types = Inferred\<rparr>"

definition sample_claims_store :: store where
  "sample_claims_store =
     empty_store\<lparr>claims :=
       [sample_claim 1 1, (sample_claim 2 1)\<lparr>c_Status := ''Completed''\<rparr>,
        sample_claim 3 2, (sample_claim 4 2)\<lparr>c_Status := ''Cancelled''\<rparr>]\<rparr>"

section \<open>Facts about the building blocks\<close>

lemma sint_succ:
  fixes m :: int64
  assumes "sint m < 2 ^ 63 - 1"
  shows "sint (m + 1) = sint m + 1"
proof -
  have lo: "- (2 ^ 63) \<le> sint m" using sint_ge [of m] by simp
  have "sint (m + 1) = signed_take_bit 63 (sint m + 1)"
    by (simp add: sint_word_add)
  also have "\<dots> = sint m + 1"
    using lo assms by (intro signed_take_bit_int_eq_self) simp_all
  finally show ?thesis .
qed

lemma sint_add_in_range:
  fixes a b :: int64
  assumes "int64_range (sint a + sint b)"
  shows "sint (a + b) = sint a + sint b"
proof -
  have "sint (a + b) = signed_take_bit 63 (sint a + sint b)"
    by (simp add: sint_word_add)
  also have "\<dots> = sint a + sint b"
    using assms by (intro signed_take_bit_int_eq_self) (simp_all add: int64_range_def)
  finally show ?thesis .
qed

lemma sum_step_sint:
  "sum_step acc vs = Some s \<Longrightarrow> sint s = sint acc + sum_list (map sint vs)"
proof (induction vs arbitrary: acc)
  case Nil
  then show ?case by simp
next
  case (Cons v vs)
  from Cons.prems have r: "int64_range (sint acc + sint v)"
    and s: "sum_step (acc + v) vs = Some s"
    by (auto split: if_splits)
  from Cons.IH [OF s] sint_add_in_range [OF r] show ?case by simp
qed

lemma fold_smax_ge: "sint v \<le> sint (fold smax vs v)"
proof (induction vs arbitrary: v)
  case Nil
  then show ?case by simp
next
  case (Cons a vs)
  have "sint v \<le> sint (smax a v)" by (simp add: smax_def)
  also have "\<dots> \<le> sint (fold smax vs (smax a v))" by (rule Cons.IH)
  finally show ?case by simp
qed

lemma fold_smax_bound: "x \<in> set vs \<Longrightarrow> sint x \<le> sint (fold smax vs v)"
proof (induction vs arbitrary: v)
  case Nil
  then show ?case by simp
next
  case (Cons a vs)
  show ?case
  proof (cases "x = a")
    case True
    have "sint a \<le> sint (smax a v)" by (simp add: smax_def)
    also have "\<dots> \<le> sint (fold smax vs (smax a v))" by (rule fold_smax_ge)
    finally show ?thesis using True by simp
  next
    case False
    with Cons show ?thesis by simp
  qed
qed

lemma fold_smax_mem: "fold smax vs v \<in> set (v # vs)"
proof (induction vs arbitrary: v)
  case Nil
  then show ?case by simp
next
  case (Cons a vs)
  from Cons.IH [of "smax a v"] show ?case by (auto simp: smax_def split: if_splits)
qed

lemma sql_MAX_Some_bound: "sql_MAX vs = Some m \<Longrightarrow> x \<in> set vs \<Longrightarrow> sint x \<le> sint m"
  by (cases vs) (auto simp: fold_smax_ge fold_smax_bound)

lemma sql_MAX_mem: "sql_MAX vs = Some m \<Longrightarrow> m \<in> set vs"
  using fold_smax_mem by (cases vs) auto

lemma sql_MAX_None: "sql_MAX vs = None \<longleftrightarrow> vs = []"
  by (cases vs) simp_all

lemma sql_MAX_sint: "sql_MAX vs = Some m \<Longrightarrow> sint m = Max (sint ` set vs)"
proof -
  assume m: "sql_MAX vs = Some m"
  have "Max (sint ` set vs) = sint m"
  proof (rule Max_eqI)
    show "finite (sint ` set vs)" by simp
    show "\<And>y. y \<in> sint ` set vs \<Longrightarrow> y \<le> sint m"
      using sql_MAX_Some_bound [OF m] by auto
    show "sint m \<in> sint ` set vs" using sql_MAX_mem [OF m] by simp
  qed
  then show ?thesis by simp
qed

text \<open>
  Where the next claim id is what one expects: 1 for an empty table, and the largest id
  plus one when the column holds integers and the largest is below the top of the range.
\<close>

lemma new_claim_id_eq:
  "(claims st = [] \<longrightarrow> new_claim_id st = Inr 1) \<and>
   (claims st \<noteq> [] \<and> claims_types st = Inferred \<and>
    list_all (\<lambda>c. sint (c_Claim_ID c) < 2 ^ 63 - 1) (claims st) \<longrightarrow>
      (\<exists>i. new_claim_id st = Inr i \<and>
           sint i = Max (sint ` c_Claim_ID ` set (claims st)) + 1))"
proof (intro conjI impI)
  assume "claims st = []"
  then show "new_claim_id st = Inr 1" by (simp add: new_claim_id_def)
next
  assume h: "claims st \<noteq> [] \<and> claims_types st = Inferred \<and>
    list_all (\<lambda>c. sint (c_Claim_ID c) < 2 ^ 63 - 1) (claims st)"
  then obtain m where m: "sql_MAX (map c_Claim_ID (claims st)) = Some m"
    by (cases "sql_MAX (map c_Claim_ID (claims st))") (simp_all add: sql_MAX_None)
  from sql_MAX_mem [OF m] h have "sint m < 2 ^ 63 - 1"
    by (auto simp: list_all_iff)
  then have "sint (m + 1) = sint m + 1" by (rule sint_succ)
  moreover have "sint m = Max (sint ` c_Claim_ID ` set (claims st))"
    using sql_MAX_sint [OF m] by (simp add: image_image)
  moreover have "new_claim_id st = Inr (m + 1)"
    using m h by (simp add: new_claim_id_def)
  ultimately show "\<exists>i. new_claim_id st = Inr i \<and>
           sint i = Max (sint ` c_Claim_ID ` set (claims st)) + 1"
    by simp
qed

lemma new_claim_id_fresh:
  assumes n: "new_claim_id st = Inr i"
    and top: "list_all (\<lambda>c. sint (c_Claim_ID c) < 2 ^ 63 - 1) (claims st)"
  shows "i \<notin> c_Claim_ID ` set (claims st)"
proof
  assume "i \<in> c_Claim_ID ` set (claims st)"
  then have mem: "i \<in> set (map c_Claim_ID (claims st))" by simp
  then obtain m where m: "sql_MAX (map c_Claim_ID (claims st)) = Some m"
    by (cases "map c_Claim_ID (claims st)") auto
  from sql_MAX_mem [OF m] top have "sint m < 2 ^ 63 - 1"
    by (auto simp: list_all_iff)
  then have s: "sint (m + 1) = sint m + 1" by (rule sint_succ)
  from n m have "i = m + 1"
    by (simp add: new_claim_id_def split: column_types.splits)
  with s sql_MAX_Some_bound [OF m mem] show False by simp
qed

lemma above_min_food_id_fresh:
  assumes n: "min_food_id st = Inr least" and ge: "sint least \<le> sint food_id"
    and top: "list_all (\<lambda>fl. sint (fl_Food_ID fl) < 2 ^ 63 - 1) (food_listings st)"
  shows "food_id \<notin> fl_Food_ID ` set (food_listings st)"
proof
  assume "food_id \<in> fl_Food_ID ` set (food_listings st)"
  then have mem: "food_id \<in> set (map fl_Food_ID (food_listings st))" by simp
  then obtain m where m: "sql_MAX (map fl_Food_ID (food_listings st)) = Some m"
    by (cases "map fl_Food_ID (food_listings st)") auto
  from sql_MAX_mem [OF m] top have "sint m < 2 ^ 63 - 1"
    by (auto simp: list_all_iff)
  then have s: "sint (m + 1) = sint m + 1" by (rule sint_succ)
  from n m have "least = m + 1"
    by (simp add: min_food_id_def split: column_types.splits)
  with s ge sql_MAX_Some_bound [OF m mem] show False by simp
qed

section \<open>Total food available\<close>

text \<open>
  Claim C10. When \<^verbatim>\<open>food_listings\<close> has no row, the total-food-available query gives
  NULL (\<open>None\<close>), not the number 0. So whenever it gives a number, there is at least one
  listing. With listings it gives the sum of the quantities, unless a partial sum leaves the
  64-bit range, in which case the query fails.
\<close>

theorem total_food_available_null_on_empty:
  "(food_listings st = [] \<longrightarrow> get_total_food_available_sql st = Inr None) \<and>
   (get_total_food_available_sql st = Inr (Some amount) \<longrightarrow> food_listings st \<noteq> []) \<and>
   (food_listings st \<noteq> [] \<longrightarrow>
      (case sum_step 0 (map fl_Quantity (food_listings st)) of
         None \<Rightarrow> get_total_food_available_sql st = Inl DatabaseError
       | Some s \<Rightarrow> get_total_food_available_sql st = Inr (Some s) \<and>
                  sint s = sum_list (map (\<lambda>fl. sint (fl_Quantity fl)) (food_listings st))))"
proof (intro conjI impI)
  assume "food_listings st = []"
  then show "get_total_food_available_sql st = Inr None"
    by (simp add: get_total_food_available_sql_def sql_SUM_def)
next
  assume "get_total_food_available_sql st = Inr (Some amount)"
  then show "food_listings st \<noteq> []"
    by (auto simp: get_total_food_available_sql_def sql_SUM_def)
next
  assume ne: "food_listings st \<noteq> []"
  show "case sum_step 0 (map fl_Quantity (food_listings st)) of
         None \<Rightarrow> get_total_food_available_sql st = Inl DatabaseError
       | Some s \<Rightarrow> get_total_food_available_sql st = Inr (Some s) \<and>
                  sint s = sum_list (map (\<lambda>fl. sint (fl_Quantity fl)) (food_listings st))"
  proof (cases "sum_step 0 (map fl_Quantity (food_listings st))")
    case None
    with ne show ?thesis by (simp add: get_total_food_available_sql_def sql_SUM_def)
  next
    case (Some s)
    from sum_step_sint [OF Some]
    have "sint s = sum_list (map (\<lambda>fl. sint (fl_Quantity fl)) (food_listings st))"
      by (simp add: comp_def)
    with ne Some show ?thesis by (simp add: get_total_food_available_sql_def sql_SUM_def)
  qed
qed

theorem total_food_available_null_on_empty_witness:
  "get_total_food_available_sql empty_store = Inr None \<and>
   get_total_food_available_sql sample_store = Inr (Some 10) \<and>
   food_listings sample_store \<noteq> []"
proof -
  have a: "food_listings empty_store = []" by (simp add: empty_store_def)
  have b: "get_total_food_available_sql sample_store = Inr (Some 10)"
    by (simp add: get_total_food_available_sql_def sql_SUM_def sample_store_def
        sample_listing_def int64_range_def)
  from total_food_available_null_on_empty [of empty_store] a
  have c: "get_total_food_available_sql empty_store = Inr None" by blast
  from total_food_available_null_on_empty [of sample_store 10] b
  have d: "food_listings sample_store \<noteq> []" by blast
  from b c d show ?thesis by blast
qed

text \<open>A partial sum beyond the range fails the query even when the total is within it.\<close>

lemma total_food_available_overflow:
  "get_total_food_available_sql
     (empty_store\<lparr>food_listings :=
        [(sample_listing 1 ''Rice'' ''2025-03-20'')\<lparr>fl_Quantity := 9223372036854775807\<rparr>,
         sample_listing 2 ''Bread'' ''2025-03-21'',
         (sample_listing 3 ''Soup'' ''2025-03-22'')\<lparr>fl_Quantity := - 7\<rparr>]\<rparr>) =
   Inl DatabaseError"
  by (simp add: get_total_food_available_sql_def sql_SUM_def empty_store_def
      sample_listing_def int64_range_def)

section \<open>The next claim id\<close>

text \<open>
  Claim C7, at the inputs where the code departs from it. First, the claims CSV has a
  header and no data row, so the columns of \<^verbatim>\<open>claims\<close> are TEXT: the new claim id is 1;
  a claim is submitted for listing 1 and stored; the new claim id is then not 2, line 491
  raises \<^verbatim>\<open>TypeError\<close>. Second, the only claim has the id \<open>2 ^ 63 - 1\<close>: the new
  claim id is \<open>- (2 ^ 63)\<close>, not the largest id plus one.
\<close>

theorem next_claim_id_breaks:
  "new_claim_id (sample_store\<lparr>claims := [], claims_types := All_TEXT\<rparr>) = Inr 1 \<and>
   map c_Claim_ID (claims (after
     (sample_store\<lparr>claims := [], claims_types := All_TEXT\<rparr>)
     (Submit_Claim 1 (sample_receiver 1 ''CityA'') ''Pending'' ((2025, 3, 17), 10, 30, 0)))) =
     [1] \<and>
   new_claim_id (after
     (sample_store\<lparr>claims := [], claims_types := All_TEXT\<rparr>)
     (Submit_Claim 1 (sample_receiver 1 ''CityA'') ''Pending'' ((2025, 3, 17), 10, 30, 0))) =
     Inl TypeError \<and>
   map_sum id sint
     (new_claim_id (sample_store\<lparr>claims := [sample_claim 9223372036854775807 1]\<rparr>)) =
     Inr (- 9223372036854775808)"
  by (simp add: new_claim_id_def after_def claim_form_def add_claim_sql_def
      sample_store_def sample_listing_def sample_claim_def)

section \<open>Updating a listing\<close>

text \<open>
  Claim C3, as the code has it. \<^verbatim>\<open>UPDATE ... WHERE Food_ID = ?\<close> with an id that
  no listing carries changes no row and raises nothing: the update succeeds and the store
  is as before. No path of the code reports a missing id.
\<close>

theorem update_absent_id_unchanged:
  "food_id \<notin> fl_Food_ID ` set (food_listings st) \<Longrightarrow>
   update_food_listing_sql food_id food_name quantity expiry_date food_type meal_type st = Inr st"
proof -
  assume absent: "food_id \<notin> fl_Food_ID ` set (food_listings st)"
  have "map (\<lambda>fl. if fl_Food_ID fl = food_id
                  then fl\<lparr>fl_Food_Name := food_name, fl_Quantity := quantity,
                          fl_Expiry_Date := strftime_Ymd expiry_date,
                          fl_Food_Type := food_type, fl_Meal_Type := meal_type\<rparr>
                  else fl) (food_listings st) = food_listings st"
    using absent by (intro map_idI) auto
  then show ?thesis by (simp add: update_food_listing_sql_def)
qed

theorem update_absent_id_witness:
  "update_food_listing_sql 7 ''Rice'' 3 (2025, 3, 20) ''Vegan'' ''Lunch''
     (empty_store\<lparr>food_listings := [sample_listing 1 ''Bread'' ''2025-03-21'']\<rparr>) =
   Inr (empty_store\<lparr>food_listings := [sample_listing 1 ''Bread'' ''2025-03-21'']\<rparr>)"
  using update_absent_id_unchanged
    [of 7 "empty_store\<lparr>food_listings := [sample_listing 1 ''Bread'' ''2025-03-21'']\<rparr>"
        "''Rice''" 3 "(2025, 3, 20)" "''Vegan''" "''Lunch''"]
  by (simp add: sample_listing_def)

text \<open>
  The claim as written fails: the only listing has id 1, the update names id 7, and the
  result is not \<open>NotFound\<close>.
\<close>

theorem update_absent_id_not_NotFound:
  "map fl_Food_ID (food_listings
      (empty_store\<lparr>food_listings := [sample_listing 1 ''Bread'' ''2025-03-21'']\<rparr>)) = [1] \<and>
   update_food_listing_sql 7 ''Rice'' 3 (2025, 3, 20) ''Vegan'' ''Lunch''
     (empty_store\<lparr>food_listings := [sample_listing 1 ''Bread'' ''2025-03-21'']\<rparr>) \<noteq> Inl NotFound"
  by (simp add: update_food_listing_sql_def sample_listing_def)

section \<open>Deleting a listing\<close>

lemma delete_food_listing_sql_eq:
  "delete_food_listing_sql food_id st =
     Inr (st\<lparr>claims := filter (\<lambda>c. c_Food_ID c \<noteq> food_id) (claims st),
             food_listings := filter (\<lambda>fl. fl_Food_ID fl \<noteq> food_id) (food_listings st)\<rparr>)"
  by (simp add: delete_food_listing_sql_def delete_claims_of_def delete_listing_row_def)

lemma no_orphan_claims_iff:
  "no_orphan_claims st \<longleftrightarrow>
     (\<forall>c \<in> set (claims st). c_Food_ID c \<in> fl_Food_ID ` set (food_listings st))"
  unfolding no_orphan_claims_def list_all_iff list_ex_iff image_iff
  by (metis (no_types))

text \<open>
  Claim C5, as the code has it. \<^verbatim>\<open>delete_food_listing_sql\<close> always succeeds, in two
  steps: first the claims whose \<^verbatim>\<open>Food_ID\<close> is the given id go, then the listings with
  that id, and nothing else changes. No claim and no listing carries the id afterwards,
  and if every claim named an existing listing before, every claim does so after the first
  step and after the second. With an id that has no listing no listing row is touched and
  no error is reported, but the claims that name the id are deleted all the same: the
  store is unchanged when no claim names the id, which is the case whenever every claim
  names an existing listing. Deleting again changes nothing.
\<close>

theorem delete_listing_cascade:
  "\<exists>st1 st'. delete_claims_of food_id st = Inr st1 \<and>
      delete_listing_row food_id st1 = Inr st' \<and>
      delete_food_listing_sql food_id st = Inr st' \<and>
      claims st' = filter (\<lambda>c. c_Food_ID c \<noteq> food_id) (claims st) \<and>
      food_listings st' = filter (\<lambda>fl. fl_Food_ID fl \<noteq> food_id) (food_listings st) \<and>
      providers st' = providers st \<and> receivers st' = receivers st \<and>
      food_listings_types st' = food_listings_types st \<and> claims_types st' = claims_types st \<and>
      food_id \<notin> c_Food_ID ` set (claims st') \<and>
      food_id \<notin> fl_Food_ID ` set (food_listings st') \<and>
      (no_orphan_claims st \<longrightarrow> no_orphan_claims st1 \<and> no_orphan_claims st') \<and>
      (food_id \<notin> fl_Food_ID ` set (food_listings st) \<longrightarrow>
         food_listings st' = food_listings st) \<and>
      (food_id \<notin> fl_Food_ID ` set (food_listings st) \<and>
       food_id \<notin> c_Food_ID ` set (claims st) \<longrightarrow> st' = st) \<and>
      (food_id \<notin> fl_Food_ID ` set (food_listings st) \<and> no_orphan_claims st \<longrightarrow> st' = st) \<and>
      delete_food_listing_sql food_id st' = Inr st'"
proof -
  define st1 where "st1 = st\<lparr>claims := filter (\<lambda>c. c_Food_ID c \<noteq> food_id) (claims st)\<rparr>"
  define st' where
    "st' = st1\<lparr>food_listings := filter (\<lambda>fl. fl_Food_ID fl \<noteq> food_id) (food_listings st1)\<rparr>"
  have s1: "delete_claims_of food_id st = Inr st1"
    by (simp add: delete_claims_of_def st1_def)
  have s2: "delete_listing_row food_id st1 = Inr st'"
    by (simp add: delete_listing_row_def st'_def)
  have r: "delete_food_listing_sql food_id st = Inr st'"
    by (simp add: delete_food_listing_sql_def s1 s2)
  have c1: "claims st1 = filter (\<lambda>c. c_Food_ID c \<noteq> food_id) (claims st)"
    and l1: "food_listings st1 = food_listings st"
    by (simp_all add: st1_def)
  have c: "claims st' = filter (\<lambda>c. c_Food_ID c \<noteq> food_id) (claims st)"
    and l: "food_listings st' = filter (\<lambda>fl. fl_Food_ID fl \<noteq> food_id) (food_listings st)"
    and p: "providers st' = providers st" "receivers st' = receivers st"
      "food_listings_types st' = food_listings_types st" "claims_types st' = claims_types st"
    by (simp_all add: st'_def st1_def)
  have nc: "food_id \<notin> c_Food_ID ` set (claims st')" by (auto simp: c)
  have nl: "food_id \<notin> fl_Food_ID ` set (food_listings st')" by (auto simp: l)
  have ri1: "no_orphan_claims st \<longrightarrow> no_orphan_claims st1"
    unfolding no_orphan_claims_iff c1 l1 by auto
  have ri: "no_orphan_claims st \<longrightarrow> no_orphan_claims st'"
    unfolding no_orphan_claims_iff c l by auto
  have same: "food_id \<notin> fl_Food_ID ` set (food_listings st) \<longrightarrow>
         food_listings st' = food_listings st"
    unfolding l by (auto intro: filter_True)
  have untouched: "food_id \<notin> fl_Food_ID ` set (food_listings st) \<and>
       food_id \<notin> c_Food_ID ` set (claims st) \<longrightarrow> st' = st"
  proof
    assume h: "food_id \<notin> fl_Food_ID ` set (food_listings st) \<and>
       food_id \<notin> c_Food_ID ` set (claims st)"
    then have "filter (\<lambda>fl. fl_Food_ID fl \<noteq> food_id) (food_listings st) = food_listings st"
      and "filter (\<lambda>c. c_Food_ID c \<noteq> food_id) (claims st) = claims st"
      by (auto intro: filter_True)
    then show "st' = st" by (simp add: st'_def st1_def)
  qed
  have untouched': "food_id \<notin> fl_Food_ID ` set (food_listings st) \<and> no_orphan_claims st
      \<longrightarrow> st' = st"
    using untouched unfolding no_orphan_claims_iff by blast
  have again: "delete_food_listing_sql food_id st' = Inr st'"
    by (simp add: delete_food_listing_sql_eq st'_def st1_def)
  from s1 s2 r c l p nc nl ri1 ri same untouched untouched' again show ?thesis by blast
qed

theorem delete_listing_cascade_witness:
  "no_orphan_claims sample_store \<and> 7 \<notin> fl_Food_ID ` set (food_listings sample_store) \<and>
   (\<exists>st'. delete_food_listing_sql 1 sample_store = Inr st' \<and>
      map c_Claim_ID (claims st') = [2] \<and> map fl_Food_ID (food_listings st') = [2] \<and>
      no_orphan_claims st' \<and> delete_food_listing_sql 1 st' = Inr st') \<and>
   delete_food_listing_sql 7 sample_store = Inr sample_store"
proof -
  have h1: "no_orphan_claims sample_store"
    by (simp add: no_orphan_claims_def sample_store_def sample_claim_def sample_listing_def)
  have h2: "7 \<notin> fl_Food_ID ` set (food_listings sample_store)"
    by (simp add: sample_store_def sample_listing_def)
  from delete_listing_cascade [of 1 sample_store] h1
  have a: "\<exists>st'. delete_food_listing_sql 1 sample_store = Inr st' \<and>
      map c_Claim_ID (claims st') = [2] \<and> map fl_Food_ID (food_listings st') = [2] \<and>
      no_orphan_claims st' \<and> delete_food_listing_sql 1 st' = Inr st'"
    by (auto simp: sample_store_def sample_claim_def sample_listing_def)
  from delete_listing_cascade [of 7 sample_store] h1 h2
  have b: "delete_food_listing_sql 7 sample_store = Inr sample_store"
    by auto
  from h1 h2 a b show ?thesis by blast
qed

text \<open>
  The claim as written fails: no listing has id 7, claim 4 names listing 7, and deleting
  listing 7 removes that claim, so a row is affected and the store is not as before.
\<close>

theorem delete_absent_listing_removes_claims:
  "7 \<notin> fl_Food_ID ` set (food_listings
        (sample_store\<lparr>claims := claims sample_store @ [sample_claim 4 7]\<rparr>)) \<and>
   map c_Claim_ID (claims
        (sample_store\<lparr>claims := claims sample_store @ [sample_claim 4 7]\<rparr>)) = [1, 2, 3, 4] \<and>
   delete_food_listing_sql 7
        (sample_store\<lparr>claims := claims sample_store @ [sample_claim 4 7]\<rparr>) = Inr sample_store \<and>
   map c_Claim_ID (claims sample_store) = [1, 2, 3]"
  by (simp add: delete_food_listing_sql_eq sample_store_def sample_listing_def sample_claim_def)

section \<open>Submitting a claim\<close>



section \<open>Keys\<close>

lemma update_keeps_ids:
  "update_food_listing_sql food_id food_name quantity expiry_date food_type meal_type st = Inr st'
   \<Longrightarrow> map fl_Food_ID (food_listings st') = map fl_Food_ID (food_listings st) \<and>
       claims st' = claims st"
  by (auto simp: update_food_listing_sql_def)

lemma unique_ids_after:
  assumes u: "unique_ids st" and w: "widget_allows st a" and t: "below_top st a"
  shows "unique_ids (after st a)"
proof (cases a)
  case (Add_Listing i n q e p ft mt)
  from w Add_Listing obtain least where l: "min_food_id st = Inr least"
    and ge: "sint least \<le> sint i"
    by (auto split: sum.splits)
  from t Add_Listing have "list_all (\<lambda>fl. sint (fl_Food_ID fl) < 2 ^ 63 - 1) (food_listings st)"
    by simp
  from above_min_food_id_fresh [OF l ge this]
  have "i \<notin> fl_Food_ID ` set (food_listings st)" .
  with u Add_Listing l show ?thesis
    by (simp add: after_def add_listing_form_def add_food_listing_sql_def unique_ids_def)
next
  case (Update_Listing i n q e ft mt)
  obtain st' where r: "update_food_listing_sql i n q e ft mt st = Inr st'"
    by (simp add: update_food_listing_sql_def)
  from update_keeps_ids [OF r] u have "unique_ids st'" by (simp add: unique_ids_def)
  with r u Update_Listing show ?thesis by (simp add: after_def split: sum.splits)
next
  case (Delete_Listing i)
  with u show ?thesis
    by (simp add: after_def delete_food_listing_sql_eq unique_ids_def distinct_map_filter
        split: sum.splits)
next
  case (Submit_Claim f r s now)
  show ?thesis
  proof (cases "new_claim_id st")
    case (Inl e)
    with u Submit_Claim show ?thesis by (simp add: after_def)
  next
    case (Inr i)
    from t Submit_Claim have "list_all (\<lambda>c. sint (c_Claim_ID c) < 2 ^ 63 - 1) (claims st)"
      by simp
    from new_claim_id_fresh [OF Inr this] u Inr Submit_Claim show ?thesis
      by (simp add: after_def claim_form_def add_claim_sql_def unique_ids_def Let_def)
  qed
qed

lemma unique_ids_session:
  "unique_ids st \<Longrightarrow> no_wraparound st acts \<Longrightarrow> session st acts = Some st' \<Longrightarrow> unique_ids st'"
proof (induction acts arbitrary: st)
  case Nil
  then show ?case by simp
next
  case (Cons a acts)
  from Cons.prems(3) have w: "widget_allows st a" and s: "session (after st a) acts = Some st'"
    by (auto split: if_splits)
  from Cons.prems(2) have t: "below_top st a" and n: "no_wraparound (after st a) acts"
    by simp_all
  from Cons.IH [OF unique_ids_after [OF Cons.prems(1) w t] n s] show ?case .
qed

text \<open>
  Claim C4, as the code has it. The tables have no key constraint: an insert of a listing
  or of a claim always succeeds and appends a row with the id it was given, whether or not
  a row already carries that id. The keys stay unique through the forms instead: the Add
  form takes no Food ID below the largest one plus one, and the claim form uses the largest
  Claim ID plus one. So when the ids are unique, they are unique after any sequence of
  form actions (add, update, delete, submit a claim) in which no new id is computed from
  a largest id of \<open>2 ^ 63 - 1\<close>.
\<close>

theorem ids_unique_through_forms:
  "(\<exists>st1. add_food_listing_sql food_id food_name quantity expiry_date provider_id
             provider_type location food_type meal_type st = Inr st1 \<and>
          map fl_Food_ID (food_listings st1) = map fl_Food_ID (food_listings st) @ [food_id]) \<and>
   (\<exists>st2. add_claim_sql claim_id claimed_food_id receiver_id status timestamp st = Inr st2 \<and>
          map c_Claim_ID (claims st2) = map c_Claim_ID (claims st) @ [claim_id]) \<and>
   (unique_ids st \<longrightarrow> no_wraparound st acts \<longrightarrow> session st acts = Some st' \<longrightarrow>
      unique_ids st')"
  using unique_ids_session [of st acts st']
  by (simp add: add_food_listing_sql_def add_claim_sql_def)

theorem ids_unique_through_forms_witness:
  "unique_ids sample_store \<and>
   no_wraparound sample_store
     [Add_Listing 3 ''Soup'' 3 (2025, 3, 20) (sample_provider 1 ''CityA'') ''Vegan'' ''Dinner'',
      Submit_Claim 3 (sample_receiver 1 ''CityA'') ''Pending'' ((2025, 3, 17), 10, 30, 0),
      Delete_Listing 1] \<and>
   session sample_store
     [Add_Listing 3 ''Soup'' 3 (2025, 3, 20) (sample_provider 1 ''CityA'') ''Vegan'' ''Dinner'',
      Submit_Claim 3 (sample_receiver 1 ''CityA'') ''Pending'' ((2025, 3, 17), 10, 30, 0),
      Delete_Listing 1] \<noteq> None \<and>
   unique_ids (the (session sample_store
     [Add_Listing 3 ''Soup'' 3 (2025, 3, 20) (sample_provider 1 ''CityA'') ''Vegan'' ''Dinner'',
      Submit_Claim 3 (sample_receiver 1 ''CityA'') ''Pending'' ((2025, 3, 17), 10, 30, 0),
      Delete_Listing 1]))"
proof -
  let ?acts = "[Add_Listing 3 ''Soup'' 3 (2025, 3, 20) (sample_provider 1 ''CityA'') ''Vegan'' ''Dinner'',
      Submit_Claim 3 (sample_receiver 1 ''CityA'') ''Pending'' ((2025, 3, 17), 10, 30, 0),
      Delete_Listing 1]"
  have h1: "unique_ids sample_store"
    by (simp add: unique_ids_def sample_store_def sample_listing_def sample_claim_def)
  have h0: "no_wraparound sample_store ?acts"
    by (simp add: after_def min_food_id_def new_claim_id_def add_listing_form_def
        add_food_listing_sql_def claim_form_def add_claim_sql_def smax_def
        sample_store_def sample_listing_def sample_claim_def)
  have w: "widget_allows sample_store (hd ?acts)"
    by (simp add: min_food_id_def smax_def sample_store_def sample_listing_def)
  then obtain st' where h2: "session sample_store ?acts = Some st'"
    by simp
  from ids_unique_through_forms [of _ _ _ _ _ _ _ _ _ sample_store _ _ _ _ _ ?acts st'] h0 h1 h2
  have "unique_ids st'" by blast
  with h0 h1 h2 show ?thesis by simp
qed

text \<open>
  The claim as written fails: the listing ids are unique, a listing with the existing
  id 1 is inserted, no \<open>IntegrityError\<close> comes back, and the ids are no longer unique.
\<close>

theorem duplicate_key_insert_accepted:
  "unique_ids sample_store \<and>
   add_food_listing_sql 1 ''Soup'' 3 (2025, 3, 20) (Integer 1) ''Supermarket'' ''CityA''
     ''Vegan'' ''Dinner'' sample_store \<noteq> Inl IntegrityError \<and>
   \<not> unique_ids (after sample_store
        (Add_Listing 1 ''Soup'' 3 (2025, 3, 20) (sample_provider 1 ''CityA'') ''Vegan'' ''Dinner''))"
  by (simp add: unique_ids_def sample_store_def sample_listing_def sample_claim_def
      add_food_listing_sql_def after_def add_listing_form_def sample_provider_def
      min_food_id_def smax_def)

text \<open>
  At the top of the range the claim form itself repeats an id: the only claim has the id
  \<open>2 ^ 63 - 1\<close>, and two submissions both store the id \<open>- (2 ^ 63)\<close>.
\<close>

lemma claim_id_repeats_at_top:
  "map (\<lambda>c. sint (c_Claim_ID c))
     (claims (after (after
        (sample_store\<lparr>claims := [sample_claim 9223372036854775807 1]\<rparr>)
        (Submit_Claim 1 (sample_receiver 1 ''CityA'') ''Pending'' ((2025, 3, 17), 10, 30, 0)))
        (Submit_Claim 2 (sample_receiver 1 ''CityA'') ''Pending'' ((2025, 3, 17), 10, 31, 0)))) =
   [9223372036854775807, - 9223372036854775808, - 9223372036854775808]"
  by (simp add: after_def new_claim_id_def claim_form_def add_claim_sql_def smax_def
      sample_store_def sample_listing_def sample_claim_def)

section \<open>Filtering the listings\<close>

lemma filter_conditions_all:
  "list_all (\<lambda>cond. cond fl) (filter_conditions c pt ft mt) \<longleftrightarrow>
     (c = ''All'' \<or> fl_Location fl = c) \<and> (pt = ''All'' \<or> fl_Provider_Type fl = pt) \<and>
     (ft = ''All'' \<or> fl_Food_Type fl = ft) \<and> (mt = ''All'' \<or> fl_Meal_Type fl = mt)"
  by (simp add: filter_conditions_def)

lemma set_listings_join_providers:
  "set (listings_join_providers st) =
     {(fl, p). fl \<in> set (food_listings st) \<and> p \<in> set (providers st) \<and>
               fl_Provider_ID fl = Integer (p_Provider_ID p)}"
  by (auto simp: listings_join_providers_def)

lemma view_key:
  "(v_Expiry_Date (select_view jr), v_Food_Name (select_view jr)) =
   (fl_Expiry_Date (fst jr), fl_Food_Name (fst jr))"
  by (simp add: select_view_def)

text \<open>
  What the filter query returns, for every store: the rows of the join of the listings
  with the providers whose listing meets every filter that was chosen, a filter left at
  \<^verbatim>\<open>'All'\<close> excluding nothing, in ascending order of the stored text of
  \<^verbatim>\<open>Expiry_Date\<close> and then of \<^verbatim>\<open>Food_Name\<close>.
\<close>

lemma filter_query_rows:
  "(v \<in> set (filter_query c pt ft mt st) \<longleftrightarrow>
      (\<exists>fl \<in> set (food_listings st). \<exists>p \<in> set (providers st).
         fl_Provider_ID fl = Integer (p_Provider_ID p) \<and>
         (c = ''All'' \<or> fl_Location fl = c) \<and> (pt = ''All'' \<or> fl_Provider_Type fl = pt) \<and>
         (ft = ''All'' \<or> fl_Food_Type fl = ft) \<and> (mt = ''All'' \<or> fl_Meal_Type fl = mt) \<and>
         v = select_view (fl, p)))"
  "sorted (map (\<lambda>v. (v_Expiry_Date v, v_Food_Name v)) (filter_query c pt ft mt st))"
proof -
  show "v \<in> set (filter_query c pt ft mt st) \<longleftrightarrow>
      (\<exists>fl \<in> set (food_listings st). \<exists>p \<in> set (providers st).
         fl_Provider_ID fl = Integer (p_Provider_ID p) \<and>
         (c = ''All'' \<or> fl_Location fl = c) \<and> (pt = ''All'' \<or> fl_Provider_Type fl = pt) \<and>
         (ft = ''All'' \<or> fl_Food_Type fl = ft) \<and> (mt = ''All'' \<or> fl_Meal_Type fl = mt) \<and>
         v = select_view (fl, p))"
    unfolding filter_query_def set_map set_sort set_filter filter_conditions_all
      set_listings_join_providers
    by fastforce
  have "map (\<lambda>v. (v_Expiry_Date v, v_Food_Name v)) (filter_query c pt ft mt st) =
        map (\<lambda>jr. (fl_Expiry_Date (fst jr), fl_Food_Name (fst jr)))
          (sort_key (\<lambda>jr. (fl_Expiry_Date (fst jr), fl_Food_Name (fst jr)))
            (filter (\<lambda>jr. list_all (\<lambda>cond. cond (fst jr)) (filter_conditions c pt ft mt))
               (listings_join_providers st)))"
    by (simp add: filter_query_def view_key comp_def)
  then show "sorted (map (\<lambda>v. (v_Expiry_Date v, v_Food_Name v)) (filter_query c pt ft mt st))"
    by (simp only: sorted_sort_key)
qed

text \<open>A listing added through the form joins with no provider, so no filter returns it.\<close>

lemma form_listing_not_returned:
  assumes "add_listing_form new_food_id new_food_name new_quantity new_expiry_date
             selected_provider_row new_food_type new_meal_type st = Inr st'"
  shows "set (filter_query c pt ft mt st') = set (filter_query c pt ft mt st)"
proof -
  from assms have fl: "food_listings st' = food_listings st @
       [\<lparr>fl_Food_ID = new_food_id, fl_Food_Name = new_food_name, fl_Quantity = new_quantity,
         fl_Expiry_Date = strftime_Ymd new_expiry_date,
         fl_Provider_ID = Blob (int64_bytes (p_Provider_ID selected_provider_row)),
         fl_Provider_Type = p_Type selected_provider_row,
         fl_Location = p_City selected_provider_row,
         fl_Food_Type = new_food_type, fl_Meal_Type = new_meal_type\<rparr>]"
    and p: "providers st' = providers st"
    by (auto simp: add_listing_form_def add_food_listing_sql_def split: if_splits)
  have "set (listings_join_providers st') = set (listings_join_providers st)"
    unfolding set_listings_join_providers fl p by auto
  then show ?thesis
    by (simp add: filter_query_def)
qed

lemma to_sql_datetime_20: "to_sql_datetime ((2025, 3, 20), 0, 0, 0) = ''2025-03-20 00:00:00''"
  by code_simp

lemma strftime_Ymd_19_20:
  "strftime_Ymd (2025, 3, 19) = ''2025-03-19''"
  "strftime_Ymd (2025, 3, 20) = ''2025-03-20''"
  by code_simp+

lemma int64_bytes_1: "int64_bytes 1 = [1, 0, 0, 0, 0, 0, 0, 0]"
  by (simp add: int64_bytes_def upt_rec)

text \<open>
  Claim C8, at an input where the code departs from it. Rice and Zucchini are loaded from
  the CSV and both expire on 20 March 2025. The Update form is submitted for Zucchini with
  the values it already shows, and Apples, expiring on 19 March, is added through the Add
  form for provider 1. The table then holds three listings, each of which meets the
  filters (all are left at \<^verbatim>\<open>'All'\<close>). The query returns Zucchini before Rice, and
  does not return Apples (the claim asks for Apples, Rice, Zucchini).
\<close>

theorem filter_query_on_form_rows:
  "map (\<lambda>fl. (fl_Food_ID fl, fl_Food_Name fl, fl_Expiry_Date fl, fl_Provider_ID fl))
     (food_listings (after (after
        (sample_store\<lparr>food_listings :=
           [sample_listing 1 ''Rice'' (to_sql_datetime ((2025, 3, 20), 0, 0, 0)),
            sample_listing 2 ''Zucchini'' (to_sql_datetime ((2025, 3, 20), 0, 0, 0))]\<rparr>)
        (Update_Listing 2 ''Zucchini'' 5 (2025, 3, 20) ''Vegan'' ''Lunch''))
        (Add_Listing 3 ''Apples'' 5 (2025, 3, 19) (sample_provider 1 ''CityA'')
           ''Vegan'' ''Lunch''))) =
   [(1, ''Rice'', ''2025-03-20 00:00:00'', Integer 1),
    (2, ''Zucchini'', ''2025-03-20'', Integer 1),
    (3, ''Apples'', ''2025-03-19'', Blob [1, 0, 0, 0, 0, 0, 0, 0])] \<and>
   filter_query ''All'' ''All'' ''All'' ''All''
     (after (after
        (sample_store\<lparr>food_listings :=
           [sample_listing 1 ''Rice'' (to_sql_datetime ((2025, 3, 20), 0, 0, 0)),
            sample_listing 2 ''Zucchini'' (to_sql_datetime ((2025, 3, 20), 0, 0, 0))]\<rparr>)
        (Update_Listing 2 ''Zucchini'' 5 (2025, 3, 20) ''Vegan'' ''Lunch''))
        (Add_Listing 3 ''Apples'' 5 (2025, 3, 19) (sample_provider 1 ''CityA'')
           ''Vegan'' ''Lunch'')) =
   [\<lparr>v_Food_ID = 2, v_Food_Name = ''Zucchini'', v_Quantity = 5,
      v_Expiry_Date = ''2025-03-20'', v_Provider_Type = ''Supermarket'',
      v_Location = ''CityA'', v_Food_Type = ''Vegan'', v_Meal_Type = ''Lunch'',
      v_Provider_Name = ''Green Grocer'', v_Provider_Contact = ''555-0100''\<rparr>,
    \<lparr>v_Food_ID = 1, v_Food_Name = ''Rice'', v_Quantity = 5,
      v_Expiry_Date = ''2025-03-20 00:00:00'', v_Provider_Type = ''Supermarket'',
      v_Location = ''CityA'', v_Food_Type = ''Vegan'', v_Meal_Type = ''Lunch'',
      v_Provider_Name = ''Green Grocer'', v_Provider_Contact = ''555-0100''\<rparr>]"
  unfolding to_sql_datetime_20
  by (simp add: after_def min_food_id_def smax_def update_food_listing_sql_def
      add_listing_form_def add_food_listing_sql_def strftime_Ymd_19_20 int64_bytes_1
      filter_query_def filter_conditions_def listings_join_providers_def select_view_def
      sample_store_def sample_listing_def sample_provider_def
      del: strftime_Ymd.simps)

section \<open>Claim status percentages\<close>








lemma sample_percentages:
  "get_claim_status_percentage_sql (\<lambda>x. x) sample_claims_store =
     [(''Pending'', 50), (''Cancelled'', 25), (''Completed'', 25)]"
  by (simp add: get_claim_status_percentage_sql_def percentage_def sample_claims_store_def
      empty_store_def sample_claim_def)


section \<open>Providers and receivers per city\<close>

lemma joined_city_provider: "joined_city jr = Some (p_City (fst jr))"
  by (simp add: joined_city_def coalesce_def)

lemma fst_set_left_join:
  "fst ` set (providers_left_join_receivers st) = set (providers st)"
  by (force simp: providers_left_join_receivers_def image_iff split: list.splits)

text \<open>
  The cities of the result are the cities of the providers, for every store: the join
  starts from \<^verbatim>\<open>providers\<close>, so \<^verbatim>\<open>p.City\<close> is never NULL and
  \<^verbatim>\<open>COALESCE(p.City, r.City)\<close> never falls back on the receiver's city.
\<close>

lemma per_city_rows_are_provider_cities:
  "fst ` set (get_providers_receivers_per_city_sql st) =
     (\<lambda>p. Some (p_City p)) ` set (providers st)"
proof -
  have "fst ` set (get_providers_receivers_per_city_sql st) =
        joined_city ` set (providers_left_join_receivers st)"
    by (force simp: get_providers_receivers_per_city_sql_def Let_def image_iff)
  also have "\<dots> = (\<lambda>p. Some (p_City p)) ` fst ` set (providers_left_join_receivers st)"
    by (simp add: image_image joined_city_provider)
  finally show ?thesis by (simp add: fst_set_left_join)
qed

lemma per_city_sorted:
  "sorted (map (\<lambda>(k, np, nr). (- int np, - int nr)) (get_providers_receivers_per_city_sql st))"
  by (simp add: get_providers_receivers_per_city_sql_def Let_def del: map_map)

text \<open>The example of the specification holds on the code.\<close>

lemma per_city_spec_example:
  "get_providers_receivers_per_city_sql
     (empty_store\<lparr>providers := [sample_provider 1 ''CityA'', sample_provider 2 ''CityB''],
                  receivers := [sample_receiver 1 ''CityA'']\<rparr>) =
   [(Some ''CityA'', 1, 1), (Some ''CityB'', 1, 0)]"
  by code_simp

text \<open>
  Claim C1, at the input where the code departs from it. One provider in CityA, one
  receiver in CityB: the query returns the row of CityA only. CityB, which has a receiver
  and no provider, has no row (the claim asks for CityB with 0 providers and 1 receiver).
\<close>

theorem per_city_drops_receiver_only_city:
  "get_providers_receivers_per_city_sql
     (empty_store\<lparr>providers := [sample_provider 1 ''CityA''],
                  receivers := [sample_receiver 1 ''CityB'']\<rparr>) =
   [(Some ''CityA'', 1, 0)]"
  by code_simp

section \<open>Food nearing expiry\<close>

lemma today_str_sample: "today_str ((2025, 3, 17), 10, 30, 0) = ''2025-03-17''"
  by code_simp

lemma sqlite_DATE_sample: "sqlite_DATE ''2025-03-17'' 7 = Some ''2025-03-24''"
  by code_simp

lemma to_sql_datetime_sample:
  "to_sql_datetime ((2025, 3, 17), 0, 0, 0) = ''2025-03-17 00:00:00''"
  "to_sql_datetime ((2025, 3, 24), 0, 0, 0) = ''2025-03-24 00:00:00''"
  "to_sql_datetime ((2025, 3, 25), 0, 0, 0) = ''2025-03-25 00:00:00''"
  by code_simp+

lemma strftime_Ymd_sample:
  "strftime_Ymd (2025, 3, 17) = ''2025-03-17''"
  "strftime_Ymd (2025, 3, 24) = ''2025-03-24''"
  "strftime_Ymd (2025, 3, 25) = ''2025-03-25''"
  by code_simp+

lemma nearing_expiry_where_sample:
  "nearing_expiry_where ((2025, 3, 17), 10, 30, 0) 7 (sample_listing i n ''2025-03-17 00:00:00'')"
  "\<not> nearing_expiry_where ((2025, 3, 17), 10, 30, 0) 7 (sample_listing i n ''2025-03-24 00:00:00'')"
  "\<not> nearing_expiry_where ((2025, 3, 17), 10, 30, 0) 7 (sample_listing i n ''2025-03-25 00:00:00'')"
  "\<not> nearing_expiry_where ((2025, 3, 17), 10, 30, 0) 7 (sample_listing i n ''2025-03-17'')"
  "nearing_expiry_where ((2025, 3, 17), 10, 30, 0) 7 (sample_listing i n ''2025-03-24'')"
  "\<not> nearing_expiry_where ((2025, 3, 17), 10, 30, 0) 7 (sample_listing i n ''2025-03-25'')"
  by (simp_all add: nearing_expiry_where_def today_str_sample sqlite_DATE_sample
      sample_listing_def)

text \<open>
  For every store, the rows returned are those of the listings that pass the text
  comparisons of the WHERE clause, in ascending order of the stored \<^verbatim>\<open>Expiry_Date\<close>.
\<close>

lemma nearing_expiry_rows:
  "set (get_food_nearing_expiry_sql now days st) =
     (\<lambda>fl. (fl_Food_Name fl, fl_Quantity fl, fl_Expiry_Date fl, fl_Location fl,
             fl_Provider_ID fl)) `
       {fl \<in> set (food_listings st). nearing_expiry_where now days fl}"
  "sorted (map (\<lambda>(name, quantity, expiry, location, provider_id). expiry)
     (get_food_nearing_expiry_sql now days st))"
  by (simp_all add: get_food_nearing_expiry_sql_def comp_def)

text \<open>
  Claim C2, at the input where the code departs from it. It is 17 March 2025 and
  \<^verbatim>\<open>days\<close> is 7. Listings 1, 2 and 3 expire today, in 7 days and in 8 days and hold the
  text \<^verbatim>\<open>init_db\<close> stores for a CSV date; listings 4, 5 and 6 expire on the same three
  days and hold the text the add and update operations store. Of the first three the query
  returns the one expiring today and not the one expiring in 7 days (the claim asks for
  the reverse); of the last three it returns the one expiring in 7 days only.
\<close>

theorem nearing_expiry_on_loaded_rows:
  "get_food_nearing_expiry_sql ((2025, 3, 17), 10, 30, 0) 7
     (empty_store\<lparr>food_listings :=
        [sample_listing 1 ''Rice'' (to_sql_datetime ((2025, 3, 17), 0, 0, 0)),
         sample_listing 2 ''Bread'' (to_sql_datetime ((2025, 3, 24), 0, 0, 0)),
         sample_listing 3 ''Soup'' (to_sql_datetime ((2025, 3, 25), 0, 0, 0)),
         sample_listing 4 ''Apples'' (strftime_Ymd (2025, 3, 17)),
         sample_listing 5 ''Pasta'' (strftime_Ymd (2025, 3, 24)),
         sample_listing 6 ''Salad'' (strftime_Ymd (2025, 3, 25))]\<rparr>) =
   [(''Rice'', 5, ''2025-03-17 00:00:00'', ''CityA'', Integer 1),
    (''Pasta'', 5, ''2025-03-24'', ''CityA'', Integer 1)]"
  unfolding to_sql_datetime_sample strftime_Ymd_sample
  by (simp add: get_food_nearing_expiry_sql_def nearing_expiry_where_sample)
    (simp add: sample_listing_def)

end
